theory Spec2Isabelle
  imports Complex_Main "HOL-Library.Sublist"
begin

section \<open>Data model\<close>

text \<open>
  The slice holds three React components (the sync context menu, the drive-list context
  menu and the directory public-link panel) and three formatting utilities. The
  components mirror remote entities into local stores; every handler is an
  \<^verbatim>\<open>async\<close> function with one \<^verbatim>\<open>try/catch/finally\<close>.

  Both \<^verbatim>\<open>SyncPair\<close> and \<^verbatim>\<open>DriveCloudItem\<close> are objects with a \<^verbatim>\<open>uuid: string\<close>
  field; the common field is the root record, so that \<open>uuid\<close> reads either. The
  remaining fields of \<^verbatim>\<open>SyncPair\<close> (declared in an external package) are the
  extension slot of the record: the spread \<^verbatim>\<open>{ ...pair, paused }\<close> is a record update,
  which keeps them.
\<close>

record Entity =
  uuid :: string

record SyncPair = Entity +
  paused :: bool

record DriveCloudItem = Entity +
  name :: string
  selected :: bool

record 'a SyncConfig =
  syncPairs :: "'a SyncPair_scheme list"

record 'a DesktopConfig =
  syncConfig :: "'a SyncConfig"

text \<open>
  \<^verbatim>\<open>DirLinkStatusResponse\<close>: the fields the handlers read. \<open>linkUUID\<close> is the
  response's own \<^verbatim>\<open>uuid\<close> (meaningful when \<open>exists\<close>).
\<close>

record DirLinkStatusResponse =
  exists :: bool
  linkUUID :: string

text \<open>
  A value thrown by a rejected remote call. The handlers read \<^verbatim>\<open>e.message\<close> and,
  when that is null or undefined, \<^verbatim>\<open>e.toString()\<close>.
\<close>

record js_error =
  message :: "string option"
  toString :: string

text \<open>The calls across the worker / desktop API boundary, with their arguments.\<close>

datatype remote_call =
    SyncUpdatePaused string bool
  | SyncResetCache string
  | SyncUpdateRemoved string bool
  | CreateDirectory string string
  | EnablePublicLink string
  | DisablePublicLink string string
  | EditPublicLink string string bool string "string option"
  | Refetch string

text \<open>
  Everything a handler does besides updating a store, in the order it happens: remote
  calls, dialogs, toasts, console output, navigation, timers.
\<close>

datatype event =
    RemoteCall remote_call
  | ConfirmDialog
  | InputDialog
  | LoadingToast
  | ToastDismiss
  | ConsoleError js_error
  | ErrorToast string
  | Navigate string
  | SetTimeout nat

text \<open>
  The stores and component state the handlers read and write: the desktop
  configuration and the syncs store (sync menu), the drive items store and the
  directory-name cache (drive menu), and the link panel's local state.
\<close>

record 'a ui_state =
  desktopConfig :: "'a DesktopConfig"
  selectedSync :: "'a SyncPair_scheme option"
  changing :: bool
  items :: "DriveCloudItem list"
  directoryUUIDToNameCache :: "string \<rightharpoonup> string"
  status :: "DirLinkStatusResponse option"
  saving :: bool
  panelOpen :: bool
  password :: string
  expiration :: string
  downloadBtn :: bool
  trace :: "event list"

section \<open>Asynchronous handlers\<close>

text \<open>
  A remote call either resolves or rejects with an error; which one is decided outside
  the slice, so it is a parameter (\<open>api\<close>): \<open>None\<close> is a resolved call.
  A \<^verbatim>\<open>try\<close> block ends \<open>Resolved\<close> or \<open>Rejected\<close> with the thrown value, in both
  cases with the state reached so far.
\<close>

datatype 's outcome = Resolved 's | Rejected js_error 's

definition emit :: "event \<Rightarrow> 'a ui_state \<Rightarrow> 'a ui_state" where
  "emit ev s = s\<lparr>trace := trace s @ [ev]\<rparr>"

definition await :: "(remote_call \<Rightarrow> js_error option) \<Rightarrow> remote_call \<Rightarrow> 'a ui_state
    \<Rightarrow> 'a ui_state outcome" where
  "await api c s =
     (case api c of
        None \<Rightarrow> Resolved (emit (RemoteCall c) s)
      | Some e \<Rightarrow> Rejected e (emit (RemoteCall c) s))"

definition and_then :: "'s outcome \<Rightarrow> ('s \<Rightarrow> 's outcome) \<Rightarrow> 's outcome" where
  "and_then r f = (case r of Resolved s \<Rightarrow> f s | Rejected e s \<Rightarrow> Rejected e s)"

text \<open>\<^verbatim>\<open>(e as Error).message ?? (e as Error).toString()\<close>\<close>

definition errorMessage :: "js_error \<Rightarrow> string" where
  "errorMessage e = (case message e of Some m \<Rightarrow> m | None \<Rightarrow> toString e)"

text \<open>
  The \<^verbatim>\<open>catch\<close> block every handler shares:
  \<^verbatim>\<open>console.error(e); errorToast(e.message ?? e.toString())\<close>.
\<close>

definition catch_toast :: "'a ui_state outcome \<Rightarrow> 'a ui_state" where
  "catch_toast r =
     (case r of
        Resolved s \<Rightarrow> s
      | Rejected e s \<Rightarrow> emit (ErrorToast (errorMessage e)) (emit (ConsoleError e) s))"

subsection \<open>Sync context menu\<close>

text \<open>
  \<^verbatim>\<open>desktopConfig.syncConfig.syncPairs.filter(pair => pair.uuid === sync.uuid)[0] ?? null\<close>
\<close>

definition syncConfigOf :: "string \<Rightarrow> 'a DesktopConfig \<Rightarrow> 'a SyncPair_scheme option" where
  "syncConfigOf sync_uuid cfg =
     (case filter (\<lambda>pair. uuid pair = sync_uuid) (syncPairs (syncConfig cfg)) of
        [] \<Rightarrow> None
      | pair # _ \<Rightarrow> Some pair)"

text \<open>The updater passed to \<^verbatim>\<open>setDesktopConfig\<close> by \<^verbatim>\<open>togglePause\<close>.\<close>

definition pauseUpdater :: "string \<Rightarrow> bool \<Rightarrow> 'a DesktopConfig \<Rightarrow> 'a DesktopConfig" where
  "pauseUpdater sync_uuid p prev =
     prev\<lparr>syncConfig := (syncConfig prev)\<lparr>syncPairs :=
       map (\<lambda>pair. if uuid pair = sync_uuid then pair\<lparr>paused := p\<rparr> else pair)
         (syncPairs (syncConfig prev))\<rparr>\<rparr>"

text \<open>The updater passed to \<^verbatim>\<open>setDesktopConfig\<close> by \<^verbatim>\<open>deleteSync\<close>.\<close>

definition deleteUpdater :: "string \<Rightarrow> 'a DesktopConfig \<Rightarrow> 'a DesktopConfig" where
  "deleteUpdater sync_uuid prev =
     prev\<lparr>syncConfig := (syncConfig prev)\<lparr>syncPairs :=
       filter (\<lambda>pair. uuid pair \<noteq> sync_uuid) (syncPairs (syncConfig prev))\<rparr>\<rparr>"

definition togglePause :: "(remote_call \<Rightarrow> js_error option) \<Rightarrow> string \<Rightarrow> 'a ui_state
    \<Rightarrow> 'a ui_state" where
  "togglePause api sync_uuid s =
     (case syncConfigOf sync_uuid (desktopConfig s) of
        None \<Rightarrow> s
      | Some cfg \<Rightarrow>
          let s1 = emit LoadingToast (s\<lparr>changing := True\<rparr>);
              p = (\<not> paused cfg);
              body =
                and_then (await api (SyncUpdatePaused sync_uuid p) s1) (\<lambda>s2.
                and_then (await api (SyncResetCache sync_uuid) s2) (\<lambda>s3.
                Resolved (s3\<lparr>desktopConfig := pauseUpdater sync_uuid p (desktopConfig s3)\<rparr>)));
              s4 = catch_toast body
          in emit ToastDismiss (s4\<lparr>changing := False\<rparr>))"

text \<open>
  \<open>confirmed\<close> is the answer of the confirmation dialog. \<^verbatim>\<open>deleteSync\<close> does not
  read \<^verbatim>\<open>syncConfig\<close>.
\<close>

definition deleteSync :: "(remote_call \<Rightarrow> js_error option) \<Rightarrow> bool \<Rightarrow> string \<Rightarrow> 'a ui_state
    \<Rightarrow> 'a ui_state" where
  "deleteSync api confirmed sync_uuid s =
     (let s0 = emit ConfirmDialog s in
      if \<not> confirmed then s0
      else
        let s1 = emit LoadingToast (s0\<lparr>changing := True\<rparr>);
            body =
              and_then (await api (SyncUpdateRemoved sync_uuid True) s1) (\<lambda>s2.
              Resolved (emit (Navigate ''/syncs'')
                (s2\<lparr>selectedSync := None,
                    desktopConfig := deleteUpdater sync_uuid (desktopConfig s2)\<rparr>)));
            s3 = catch_toast body
        in emit ToastDismiss (s3\<lparr>changing := False\<rparr>))"

subsection \<open>Drive-list context menu\<close>

text \<open>\<^verbatim>\<open>String.prototype.includes\<close>: the search string occurs as a contiguous substring.\<close>

definition str_includes :: "string \<Rightarrow> string \<Rightarrow> bool" where
  "str_includes s searchString = sublist searchString s"

text \<open>
  The updater passed to \<^verbatim>\<open>setItems\<close> by \<^verbatim>\<open>createDirectory\<close>.
  \<^verbatim>\<open>String.prototype.toLowerCase\<close> is a builtin of the host language; it is a
  parameter here.
\<close>

definition createUpdater :: "(string \<Rightarrow> string) \<Rightarrow> DriveCloudItem \<Rightarrow> DriveCloudItem list
    \<Rightarrow> DriveCloudItem list" where
  "createUpdater toLowerCase item prev =
     filter (\<lambda>prevItem. uuid prevItem \<noteq> uuid item
                      \<and> toLowerCase (name prevItem) \<noteq> toLowerCase (name item)) prev
     @ [item]"

text \<open>
  \<open>inputResponse\<close> is the answer of the input dialog (\<open>None\<close> when cancelled) and
  \<open>mkdir\<close> the outcome of \<^verbatim>\<open>worker.createDirectory\<close>: the thrown error or the
  created item.
\<close>

definition createDirectory :: "(string \<Rightarrow> string \<Rightarrow> js_error + DriveCloudItem) \<Rightarrow> (string \<Rightarrow> string)
    \<Rightarrow> string option \<Rightarrow> string \<Rightarrow> 'a ui_state \<Rightarrow> 'a ui_state" where
  "createDirectory mkdir toLowerCase inputResponse parent s =
     (let s0 = emit InputDialog s in
      case inputResponse of
        None \<Rightarrow> s0
      | Some v \<Rightarrow>
          let s1 = emit LoadingToast s0;
              s2 = emit (RemoteCall (CreateDirectory v parent)) s1;
              body =
                (case mkdir v parent of
                   Inl e \<Rightarrow> Rejected e s2
                 | Inr item \<Rightarrow>
                     Resolved (s2\<lparr>directoryUUIDToNameCache :=
                                    (directoryUUIDToNameCache s2)(uuid item \<mapsto> v),
                                  items := createUpdater toLowerCase item (items s2)\<rparr>))
          in emit ToastDismiss (catch_toast body))"

subsection \<open>Directory public-link panel\<close>

text \<open>The updater passed to \<^verbatim>\<open>setItems\<close> by \<^verbatim>\<open>toggleStatus\<close>.\<close>

definition removeItemUpdater :: "DriveCloudItem \<Rightarrow> DriveCloudItem list \<Rightarrow> DriveCloudItem list" where
  "removeItemUpdater item prev = filter (\<lambda>prevItem. uuid prevItem \<noteq> uuid item) prev"

text \<open>
  \<^verbatim>\<open>await query.refetch()\<close>: the query runs the status call again. It is called
  without \<^verbatim>\<open>throwOnError\<close>, so the promise resolves whether the status call resolves
  or rejects, and the handlers do not read its result.
\<close>

definition refetch :: "(remote_call \<Rightarrow> js_error option) \<Rightarrow> string \<Rightarrow> 'a ui_state
    \<Rightarrow> 'a ui_state outcome" where
  "refetch api item_uuid s =
     (case api (Refetch item_uuid) of
        None \<Rightarrow> Resolved (emit (RemoteCall (Refetch item_uuid)) s)
      | Some e \<Rightarrow> Resolved (emit (RemoteCall (Refetch item_uuid)) s))"

text \<open>
  \<open>location\<close> is the current route, \<open>item\<close> the item the panel shows and
  \<open>checked\<close> the new position of the switch. \<open>status s\<close> and \<open>saving s\<close> are the
  values the handler's closure holds: the component state and the \<^verbatim>\<open>saving\<close> prop as
  of the render that created the handler. \<^verbatim>\<open>return\<close> inside \<^verbatim>\<open>try\<close> skips
  the rest of the block and still runs \<^verbatim>\<open>finally\<close>. \<^verbatim>\<open>setSaving(false)\<close> is deferred
  by a 100 ms timer (\<open>savingTimeout\<close>).
\<close>

definition toggleStatus :: "(remote_call \<Rightarrow> js_error option) \<Rightarrow> string \<Rightarrow> DriveCloudItem \<Rightarrow> bool
    \<Rightarrow> 'a ui_state \<Rightarrow> 'a ui_state" where
  "toggleStatus api location item checked s =
     (case status s of
        None \<Rightarrow> s
      | Some st \<Rightarrow>
          if saving s then s
          else
            let s1 = emit LoadingToast (s\<lparr>saving := True\<rparr>);
                rest = (\<lambda>s2.
                  and_then (refetch api (uuid item) s2) (\<lambda>s3.
                  Resolved (if str_includes location ''links''
                            then s3\<lparr>items := removeItemUpdater item (items s3),
                                    panelOpen := False\<rparr>
                            else s3)));
                body =
                  (if checked then and_then (await api (EnablePublicLink (uuid item)) s1) rest
                   else if \<not> exists st then Resolved s1
                   else and_then (await api (DisablePublicLink (uuid item) (linkUUID st)) s1) rest)
            in emit (SetTimeout 100) (emit ToastDismiss (catch_toast body)))"

definition savingTimeout :: "'a ui_state \<Rightarrow> 'a ui_state" where
  "savingTimeout s = s\<lparr>saving := False\<rparr>"

text \<open>
  \<^verbatim>\<open>password && password.length > 0 ? password : undefined\<close> sends the password only
  when it is not empty.
\<close>

definition save :: "(remote_call \<Rightarrow> js_error option) \<Rightarrow> DriveCloudItem \<Rightarrow> 'a ui_state
    \<Rightarrow> 'a ui_state" where
  "save api item s =
     (case status s of
        None \<Rightarrow> s
      | Some st \<Rightarrow>
          if \<not> exists st \<or> saving s then s
          else
            let s1 = emit LoadingToast (s\<lparr>saving := True\<rparr>);
                body =
                  and_then (await api (EditPublicLink (uuid item) (linkUUID st) (downloadBtn s1)
                      (expiration s1) (if password s1 \<noteq> [] then Some (password s1) else None)) s1)
                    (\<lambda>s2. refetch api (uuid item) s2)
            in (emit ToastDismiss (catch_toast body))\<lparr>saving := False\<rparr>)"

section \<open>Formatting utilities\<close>

subsection \<open>Double arithmetic\<close>



definition roundHalfEven :: "rat \<Rightarrow> int" where
  "roundHalfEven x =
     (let f = \<lfloor>x\<rfloor>; d = x - of_int f
      in if d < 1 / 2 then f else if 1 / 2 < d then f + 1 else if even f then f else f + 1)"


subsection \<open>Timestamps\<close>


subsection \<open>Byte sizes\<close>

text \<open>
  \<^verbatim>\<open>formatBytes\<close> calls host functions whose results depend on the rounding of
  doubles: \<^verbatim>\<open>Math.log\<close>, whose accuracy the language leaves to the implementation, and
  the conversion of a number to a string. They are the two parameters of
  \<open>formatBytesOn\<close> below. This subsection first defines what they compute in exact
  arithmetic.

  \<open>floorLog1024 x\<close> is \<open>\<lfloor>log 1024 x\<rfloor>\<close> for a positive \<open>x\<close>, computed by repeated
  scaling (\<open>floorLog1024_floor_log\<close> below): the exact value of
  \<^verbatim>\<open>Math.floor(Math.log(bytes) / Math.log(k))\<close> with \<^verbatim>\<open>k = 1024\<close>. The quotient of the
  two rounded logarithms can reach the next integer just below a power of 1024, where
  the host's index is then one more. The value at \<open>x \<le> 0\<close> is not used.
\<close>

function floorLog1024 :: "rat \<Rightarrow> int" where
  "floorLog1024 x =
     (if x \<le> 0 then 0
      else if 1024 \<le> x then floorLog1024 (x / 1024) + 1
      else if x < 1 then floorLog1024 (x * 1024) - 1
      else 0)"
  by pat_completeness auto
termination
proof (relation "measure (\<lambda>x. if 1 \<le> x then nat \<lfloor>x\<rfloor> else 1024 + nat \<lceil>1 / x\<rceil>)")
  show "wf (measure (\<lambda>x::rat. if 1 \<le> x then nat \<lfloor>x\<rfloor> else 1024 + nat \<lceil>1 / x\<rceil>))"
    by simp
next
  fix x :: rat
  assume "\<not> x \<le> 0" and big: "1024 \<le> x"
  have "of_int \<lfloor>x / 1024\<rfloor> \<le> x / 1024" by (rule of_int_floor_le)
  also have "\<dots> \<le> x - 1" using big by simp
  also have "\<dots> < of_int \<lfloor>x\<rfloor>" by linarith
  finally have "\<lfloor>x / 1024\<rfloor> < \<lfloor>x\<rfloor>" by simp
  moreover have "0 < \<lfloor>x\<rfloor>" using big by simp
  ultimately show "(x / 1024, x) \<in> measure (\<lambda>x. if 1 \<le> x then nat \<lfloor>x\<rfloor> else 1024 + nat \<lceil>1 / x\<rceil>)"
    using big by simp
next
  fix x :: rat
  assume pos: "\<not> x \<le> 0" and "\<not> 1024 \<le> x" and small: "x < 1"
  show "(x * 1024, x) \<in> measure (\<lambda>x. if 1 \<le> x then nat \<lfloor>x\<rfloor> else 1024 + nat \<lceil>1 / x\<rceil>)"
  proof (cases "1 \<le> x * 1024")
    case True
    have "\<lfloor>x * 1024\<rfloor> < 1024" using small by (simp add: floor_less_iff)
    then have "nat \<lfloor>x * 1024\<rfloor> < 1024" by linarith
    then have "nat \<lfloor>x * 1024\<rfloor> < 1024 + nat \<lceil>1 / x\<rceil>" by linarith
    then show ?thesis using True small by simp
  next
    case False
    define y where "y = 1 / x"
    have y: "1024 < y" using False pos by (simp add: y_def field_simps)
    have eq: "1 / (x * 1024) = 1 / x / 1024" by simp
    have "of_int \<lceil>y / 1024\<rceil> < y / 1024 + 1" by linarith
    also have "\<dots> \<le> y" using y by simp
    also have "\<dots> \<le> of_int \<lceil>y\<rceil>" by (rule le_of_int_ceiling)
    finally have "\<lceil>y / 1024\<rceil> < \<lceil>y\<rceil>" by simp
    then have "\<lceil>1 / (x * 1024)\<rceil> < \<lceil>1 / x\<rceil>" unfolding y_def by (simp only: eq)
    moreover have "0 < \<lceil>y\<rceil>" using y by linarith
    then have "0 < \<lceil>1 / x\<rceil>" by (simp only: y_def)
    ultimately show ?thesis using False small by simp
  qed
qed

declare floorLog1024.simps [simp del]

definition sizes :: "string list" where
  "sizes = [''Bytes'', ''KB'', ''MB'', ''GB'', ''TB'', ''PB'', ''EB'', ''ZB'', ''YB'']"

text \<open>
  \<^verbatim>\<open>sizes[i]\<close>: an index outside the array reads \<^verbatim>\<open>undefined\<close>, which string
  concatenation renders as the text \<^verbatim>\<open>undefined\<close>.
\<close>

definition sizes_at :: "int \<Rightarrow> string option" where
  "sizes_at i = (if 0 \<le> i \<and> i < int (length sizes) then Some (sizes ! nat i) else None)"

definition js_string :: "string option \<Rightarrow> string" where
  "js_string v = (case v of Some s \<Rightarrow> s | None \<Rightarrow> ''undefined'')"

text \<open>Decimal digits of a natural number.\<close>

definition digit :: "nat \<Rightarrow> char" where
  "digit d = ''0123456789'' ! d"

fun show_nat :: "nat \<Rightarrow> string" where
  "show_nat n = (if n < 10 then [digit n] else show_nat (n div 10) @ [digit (n mod 10)])"

declare show_nat.simps [simp del]

text \<open>
  \<^verbatim>\<open>x.toFixed(dm)\<close> for \<open>x \<ge> 0\<close> takes the integer \<open>n\<close> with \<open>n / 10 ^ dm\<close>
  nearest to \<open>x\<close>, the larger one on a tie; \<open>toFixed\<close> is that \<open>n\<close>, and the
  digits of \<open>n\<close> with the point \<open>dm\<close> places from the right are the string the
  method returns.

  \<open>show_scaled n dm\<close> writes \<open>n / 10 ^ dm\<close> exactly, without trailing zeros and
  without the point when no fractional digit is left. \<^verbatim>\<open>parseFloat\<close> of the digits
  followed by the conversion back to a string gives the shortest digits that identify
  the nearest double: the same text when it has at most 15 significant digits, and
  fewer digits than \<open>show_scaled\<close> beyond 17.
\<close>

definition toFixed :: "rat \<Rightarrow> nat \<Rightarrow> nat" where
  "toFixed x dm = nat \<lfloor>x * 10 ^ dm + 1 / 2\<rfloor>"

definition show_scaled :: "nat \<Rightarrow> nat \<Rightarrow> string" where
  "show_scaled n dm =
     (let ds = show_nat (n mod 10 ^ dm);
          padded = replicate (dm - length ds) CHR ''0'' @ ds;
          frac = rev (dropWhile (\<lambda>c. c = CHR ''0'') (rev padded))
      in if frac = [] then show_nat (n div 10 ^ dm)
         else show_nat (n div 10 ^ dm) @ ''.'' @ frac)"

text \<open>
  \<^verbatim>\<open>toFixed\<close> throws a \<^verbatim>\<open>RangeError\<close> for more than 100 digits. A negative
  argument makes \<^verbatim>\<open>Math.log\<close> return \<^verbatim>\<open>NaN\<close>, which propagates to the mantissa and
  to the index, and \<^verbatim>\<open>sizes[NaN]\<close> is \<^verbatim>\<open>undefined\<close>. \<open>decimals_arg\<close> is the
  optional second argument: \<open>None\<close> when the caller leaves it out, and the default
  2 applies.

  The host computations are parameters: \<open>logIndex bytes\<close> is the value of
  \<^verbatim>\<open>Math.floor(Math.log(bytes) / Math.log(k))\<close> for a positive \<open>bytes\<close>, and
  \<open>printRounded n dm\<close> is the text of \<^verbatim>\<open>parseFloat\<close> applied to the digits that
  \<^verbatim>\<open>toFixed\<close> returned. \<^verbatim>\<open>Math.pow(k, i)\<close> is a power of two and dividing a double by
  it is exact. \<^verbatim>\<open>toFixed\<close> writes exponent notation from \<open>10 ^ 21\<close> on, which is not
  represented: the mantissa is below 1024 when the index is the exact one, and below
  \<open>1024 ^ 2\<close> when it is off by one.
\<close>

datatype js_exception = RangeError

definition decimals_or_default :: "int option \<Rightarrow> int" where
  "decimals_or_default decimals_arg = (case decimals_arg of None \<Rightarrow> 2 | Some d \<Rightarrow> d)"

definition formatBytesOn :: "(rat \<Rightarrow> int) \<Rightarrow> (nat \<Rightarrow> nat \<Rightarrow> string) \<Rightarrow> rat \<Rightarrow> int option
    \<Rightarrow> js_exception + string" where
  "formatBytesOn logIndex printRounded bytes decimals_arg =
     (let decimals = decimals_or_default decimals_arg in
      if bytes = 0 then Inr ''0 Bytes''
      else
        let dm = (if decimals < 0 then 0 else decimals);
            i = logIndex bytes
        in if 100 < dm then Inl RangeError
           else if bytes < 0 then Inr (''NaN'' @ '' '' @ ''undefined'')
           else Inr (printRounded (toFixed (bytes / power_int 1024 i) (nat dm)) (nat dm)
                     @ '' '' @ js_string (sizes_at i)))"

text \<open>\<^verbatim>\<open>formatBytes\<close> with both host computations carried out in exact arithmetic.\<close>

definition formatBytes :: "rat \<Rightarrow> int option \<Rightarrow> js_exception + string" where
  "formatBytes = formatBytesOn floorLog1024 show_scaled"

section \<open>Observations\<close>

text \<open>
  What a handler showed and what it called, read off the trace, and the local mirror:
  the stores that hold copies of remote entities, with the panel's view of them.
\<close>

primrec errorToasts :: "event list \<Rightarrow> string list" where
  "errorToasts [] = []"
| "errorToasts (ev # evs) =
     (case ev of ErrorToast m \<Rightarrow> m # errorToasts evs | _ \<Rightarrow> errorToasts evs)"

primrec remoteCalls :: "event list \<Rightarrow> remote_call list" where
  "remoteCalls [] = []"
| "remoteCalls (ev # evs) =
     (case ev of RemoteCall c \<Rightarrow> c # remoteCalls evs | _ \<Rightarrow> remoteCalls evs)"

definition local_mirror :: "'a ui_state \<Rightarrow>
    'a DesktopConfig \<times> 'a SyncPair_scheme option \<times> DriveCloudItem list \<times> (string \<rightharpoonup> string)
    \<times> DirLinkStatusResponse option \<times> bool" where
  "local_mirror s =
     (desktopConfig s, selectedSync s, items s, directoryUUIDToNameCache s, status s, panelOpen s)"

section \<open>Example inputs\<close>

text \<open>
  \<^verbatim>\<open>toLowerCase\<close> restricted to ASCII letters, a local mirror with two sync pairs and
  two drive items, an API whose calls all resolve, one whose calls all reject, and one
  that rejects a single call with an error that has no message.
\<close>

definition toLowerCase_ascii :: "string \<Rightarrow> string" where
  "toLowerCase_ascii =
     map (\<lambda>c. let n = (of_char c :: nat) in if 65 \<le> n \<and> n \<le> 90 then char_of (n + 32) else c)"

definition demo_pairs :: "SyncPair list" where
  "demo_pairs = [\<lparr>uuid = ''a'', paused = False\<rparr>, \<lparr>uuid = ''b'', paused = True\<rparr>]"

definition demo_items :: "DriveCloudItem list" where
  "demo_items = [\<lparr>uuid = ''d1'', name = ''Docs'', selected = False\<rparr>,
                 \<lparr>uuid = ''d2'', name = ''Music'', selected = True\<rparr>]"

definition demo_state :: "unit ui_state" where
  "demo_state =
     \<lparr>desktopConfig = \<lparr>syncConfig = \<lparr>syncPairs = demo_pairs\<rparr>\<rparr>,
      selectedSync = Some \<lparr>uuid = ''a'', paused = False\<rparr>,
      changing = False,
      items = demo_items,
      directoryUUIDToNameCache = Map.empty,
      status = Some \<lparr>exists = True, linkUUID = ''l1''\<rparr>,
      saving = False,
      panelOpen = True,
      password = [],
      expiration = ''never'',
      downloadBtn = True,
      trace = []\<rparr>"

definition api_ok :: "remote_call \<Rightarrow> js_error option" where
  "api_ok c = None"

definition demo_error :: js_error where
  "demo_error = \<lparr>message = Some ''offline'', toString = ''Error: offline''\<rparr>"

definition api_fail :: "remote_call \<Rightarrow> js_error option" where
  "api_fail c = Some demo_error"

definition plain_error :: js_error where
  "plain_error = \<lparr>message = None, toString = ''boom''\<rparr>"

definition api_fail_on :: "remote_call \<Rightarrow> remote_call \<Rightarrow> js_error option" where
  "api_fail_on c0 c = (if c = c0 then Some plain_error else None)"

definition mkdir_ok :: "string \<Rightarrow> string \<Rightarrow> js_error + DriveCloudItem" where
  "mkdir_ok v parent = Inr \<lparr>uuid = ''d3'', name = v, selected = False\<rparr>"

definition mkdir_fail :: "string \<Rightarrow> string \<Rightarrow> js_error + DriveCloudItem" where
  "mkdir_fail v parent = Inl demo_error"

definition demo_item :: DriveCloudItem where
  "demo_item = \<lparr>uuid = ''d1'', name = ''Docs'', selected = False\<rparr>"

section \<open>Auxiliary facts\<close>

lemma filter_head_nth:
  "filter P xs = y # ys \<Longrightarrow> \<exists>i<length xs. xs ! i = y \<and> P y"
proof -
  assume h: "filter P xs = y # ys"
  then have "y \<in> set (filter P xs)" by simp
  then have "y \<in> set xs" "P y" by auto
  then show ?thesis by (auto simp: in_set_conv_nth)
qed

lemma map_if_key_update:
  assumes d: "distinct (map f xs)" and i: "i < length xs" and k: "f (xs ! i) = k"
  shows "map (\<lambda>x. if f x = k then g x else x) xs = xs[i := g (xs ! i)]"
proof (rule nth_equalityI)
  show "length (map (\<lambda>x. if f x = k then g x else x) xs) = length (xs[i := g (xs ! i)])" by simp
next
  fix j assume "j < length (map (\<lambda>x. if f x = k then g x else x) xs)"
  then have j: "j < length xs" by simp
  show "map (\<lambda>x. if f x = k then g x else x) xs ! j = xs[i := g (xs ! i)] ! j"
  proof (cases "j = i")
    case True
    then show ?thesis using i k by simp
  next
    case False
    have "map f xs ! j \<noteq> map f xs ! i"
      using d i j False by (simp add: nth_eq_iff_index_eq del: nth_map)
    then have "f (xs ! j) \<noteq> k" using i j k by simp
    then show ?thesis using j False by simp
  qed
qed

lemma filter_map_if_head:
  assumes "filter (\<lambda>x. f x = k) xs = y # ys" and "\<And>x. f (g x) = f x"
  shows "filter (\<lambda>x. f x = k) (map (\<lambda>x. if f x = k then g x else x) xs) = g y # map g ys"
proof -
  have "filter (\<lambda>x. f x = k) (map (\<lambda>x. if f x = k then g x else x) xs)
        = map g (filter (\<lambda>x. f x = k) xs)"
    using assms(2) by (induction xs) auto
  then show ?thesis using assms(1) by simp
qed

lemma togglePause_resolved:
  assumes loaded: "syncConfigOf sync_uuid (desktopConfig s) = Some cfg"
    and ok1: "api (SyncUpdatePaused sync_uuid (\<not> paused cfg)) = None"
    and ok2: "api (SyncResetCache sync_uuid) = None"
  shows "togglePause api sync_uuid s =
     s\<lparr>desktopConfig := pauseUpdater sync_uuid (\<not> paused cfg) (desktopConfig s),
        changing := False,
        trace := trace s @ [LoadingToast, RemoteCall (SyncUpdatePaused sync_uuid (\<not> paused cfg)),
           RemoteCall (SyncResetCache sync_uuid), ToastDismiss]\<rparr>"
  using assms
  by (simp add: togglePause_def Let_def await_def and_then_def catch_toast_def emit_def)

lemma errorToasts_append: "errorToasts (xs @ ys) = errorToasts xs @ errorToasts ys"
  by (induction xs) (auto split: event.splits)

lemma remoteCalls_append: "remoteCalls (xs @ ys) = remoteCalls xs @ remoteCalls ys"
  by (induction xs) (auto split: event.splits)

lemma refetch_resolves:
  "refetch api item_uuid s = Resolved (s\<lparr>trace := trace s @ [RemoteCall (Refetch item_uuid)]\<rparr>)"
  by (simp add: refetch_def emit_def split: option.splits)

lemmas run_defs = Let_def await_def and_then_def catch_toast_def refetch_resolves emit_def

lemma togglePause_not_loaded:
  "syncConfigOf sync_uuid (desktopConfig s) = None \<Longrightarrow> togglePause api sync_uuid s = s"
  by (simp add: togglePause_def)

lemma togglePause_rejected_first:
  assumes "syncConfigOf sync_uuid (desktopConfig s) = Some cfg"
    and "api (SyncUpdatePaused sync_uuid (\<not> paused cfg)) = Some e"
  shows "togglePause api sync_uuid s =
     s\<lparr>changing := False,
        trace := trace s @ [LoadingToast, RemoteCall (SyncUpdatePaused sync_uuid (\<not> paused cfg)),
           ConsoleError e, ErrorToast (errorMessage e), ToastDismiss]\<rparr>"
  using assms by (simp add: togglePause_def run_defs)

lemma togglePause_rejected_second:
  assumes "syncConfigOf sync_uuid (desktopConfig s) = Some cfg"
    and "api (SyncUpdatePaused sync_uuid (\<not> paused cfg)) = None"
    and "api (SyncResetCache sync_uuid) = Some e"
  shows "togglePause api sync_uuid s =
     s\<lparr>changing := False,
        trace := trace s @ [LoadingToast, RemoteCall (SyncUpdatePaused sync_uuid (\<not> paused cfg)),
           RemoteCall (SyncResetCache sync_uuid),
           ConsoleError e, ErrorToast (errorMessage e), ToastDismiss]\<rparr>"
  using assms by (simp add: togglePause_def run_defs)

lemma deleteSync_cancelled:
  "deleteSync api False sync_uuid s = s\<lparr>trace := trace s @ [ConfirmDialog]\<rparr>"
  by (simp add: deleteSync_def run_defs)

lemma deleteSync_resolved:
  assumes "api (SyncUpdateRemoved sync_uuid True) = None"
  shows "deleteSync api True sync_uuid s =
     s\<lparr>desktopConfig := deleteUpdater sync_uuid (desktopConfig s),
        selectedSync := None,
        changing := False,
        trace := trace s @ [ConfirmDialog, LoadingToast,
           RemoteCall (SyncUpdateRemoved sync_uuid True), Navigate ''/syncs'', ToastDismiss]\<rparr>"
  using assms by (simp add: deleteSync_def run_defs)

lemma deleteSync_rejected:
  assumes "api (SyncUpdateRemoved sync_uuid True) = Some e"
  shows "deleteSync api True sync_uuid s =
     s\<lparr>changing := False,
        trace := trace s @ [ConfirmDialog, LoadingToast,
           RemoteCall (SyncUpdateRemoved sync_uuid True),
           ConsoleError e, ErrorToast (errorMessage e), ToastDismiss]\<rparr>"
  using assms by (simp add: deleteSync_def run_defs)

lemma createDirectory_cancelled:
  "createDirectory mkdir toLowerCase None parent s = s\<lparr>trace := trace s @ [InputDialog]\<rparr>"
  by (simp add: createDirectory_def run_defs)

lemma createDirectory_resolved:
  assumes "mkdir v parent = Inr item"
  shows "createDirectory mkdir toLowerCase (Some v) parent s =
     s\<lparr>items := createUpdater toLowerCase item (items s),
        directoryUUIDToNameCache := (directoryUUIDToNameCache s)(uuid item \<mapsto> v),
        trace := trace s @ [InputDialog, LoadingToast, RemoteCall (CreateDirectory v parent),
           ToastDismiss]\<rparr>"
  using assms by (simp add: createDirectory_def run_defs)

lemma createDirectory_rejected:
  assumes "mkdir v parent = Inl e"
  shows "createDirectory mkdir toLowerCase (Some v) parent s =
     s\<lparr>trace := trace s @ [InputDialog, LoadingToast, RemoteCall (CreateDirectory v parent),
           ConsoleError e, ErrorToast (errorMessage e), ToastDismiss]\<rparr>"
  using assms by (simp add: createDirectory_def run_defs)

lemma toggleStatus_guard:
  "status s = None \<or> saving s \<Longrightarrow> toggleStatus api location item checked s = s"
  by (auto simp: toggleStatus_def split: option.splits)

lemma toggleStatus_resolved:
  assumes "status s = Some st" and "\<not> saving s" and "checked \<or> exists st"
    and "api (if checked then EnablePublicLink (uuid item)
              else DisablePublicLink (uuid item) (linkUUID st)) = None"
  shows "toggleStatus api location item checked s =
     (if str_includes location ''links''
      then s\<lparr>items := removeItemUpdater item (items s), panelOpen := False, saving := True,
             trace := trace s @ [LoadingToast,
               RemoteCall (if checked then EnablePublicLink (uuid item)
                           else DisablePublicLink (uuid item) (linkUUID st)),
               RemoteCall (Refetch (uuid item)), ToastDismiss, SetTimeout 100]\<rparr>
      else s\<lparr>saving := True,
             trace := trace s @ [LoadingToast,
               RemoteCall (if checked then EnablePublicLink (uuid item)
                           else DisablePublicLink (uuid item) (linkUUID st)),
               RemoteCall (Refetch (uuid item)), ToastDismiss, SetTimeout 100]\<rparr>)"
  using assms by (auto simp: toggleStatus_def run_defs)

lemma toggleStatus_rejected:
  assumes "status s = Some st" and "\<not> saving s" and "checked \<or> exists st"
    and "api (if checked then EnablePublicLink (uuid item)
              else DisablePublicLink (uuid item) (linkUUID st)) = Some e"
  shows "toggleStatus api location item checked s =
     s\<lparr>saving := True,
        trace := trace s @ [LoadingToast,
               RemoteCall (if checked then EnablePublicLink (uuid item)
                           else DisablePublicLink (uuid item) (linkUUID st)),
               ConsoleError e, ErrorToast (errorMessage e), ToastDismiss, SetTimeout 100]\<rparr>"
  using assms by (auto simp: toggleStatus_def run_defs)

lemma save_guard:
  "status s = None \<or> saving s \<or> (\<exists>st. status s = Some st \<and> \<not> exists st) \<Longrightarrow> save api item s = s"
  by (auto simp: save_def split: option.splits)

lemma save_rejected:
  assumes "status s = Some st" and "exists st" and "\<not> saving s"
    and "api (EditPublicLink (uuid item) (linkUUID st) (downloadBtn s) (expiration s)
               (if password s \<noteq> [] then Some (password s) else None)) = Some e"
  shows "save api item s =
     s\<lparr>saving := False,
        trace := trace s @ [LoadingToast,
          RemoteCall (EditPublicLink (uuid item) (linkUUID st) (downloadBtn s) (expiration s)
               (if password s \<noteq> [] then Some (password s) else None)),
          ConsoleError e, ErrorToast (errorMessage e), ToastDismiss]\<rparr>"
  using assms by (auto simp: save_def run_defs)

lemma save_resolved:
  assumes "status s = Some st" and "exists st" and "\<not> saving s"
    and "api (EditPublicLink (uuid item) (linkUUID st) (downloadBtn s) (expiration s)
               (if password s \<noteq> [] then Some (password s) else None)) = None"
  shows "save api item s =
     s\<lparr>saving := False,
        trace := trace s @ [LoadingToast,
          RemoteCall (EditPublicLink (uuid item) (linkUUID st) (downloadBtn s) (expiration s)
               (if password s \<noteq> [] then Some (password s) else None)),
          RemoteCall (Refetch (uuid item)), ToastDismiss]\<rparr>"
  using assms by (auto simp: save_def run_defs)

lemma filter_neq_key_distinct:
  assumes d: "distinct (map f xs)" and i: "i < length xs"
  shows "filter (\<lambda>x. f x \<noteq> f (xs ! i)) xs = take i xs @ drop (Suc i) xs"
proof -
  have split: "xs = take i xs @ xs ! i # drop (Suc i) xs"
    using i by (rule id_take_nth_drop)
  have "distinct (map f (take i xs @ xs ! i # drop (Suc i) xs))"
    using d split by simp
  then have "f (xs ! i) \<notin> f ` set (take i xs)" and "f (xs ! i) \<notin> f ` set (drop (Suc i) xs)"
    by auto
  then have a: "\<forall>x \<in> set (take i xs). f x \<noteq> f (xs ! i)"
    and b: "\<forall>x \<in> set (drop (Suc i) xs). f x \<noteq> f (xs ! i)"
    by (metis image_eqI)+
  have "filter (\<lambda>x. f x \<noteq> f (xs ! i)) xs
        = filter (\<lambda>x. f x \<noteq> f (xs ! i)) (take i xs @ xs ! i # drop (Suc i) xs)"
    using split by simp
  also have "\<dots> = take i xs @ drop (Suc i) xs"
    using a b by (simp add: filter_id_conv)
  finally show ?thesis .
qed

lemma demo_simps:
  "desktopConfig demo_state = \<lparr>syncConfig = \<lparr>syncPairs = demo_pairs\<rparr>\<rparr>"
  "selectedSync demo_state = Some \<lparr>uuid = ''a'', paused = False\<rparr>"
  "changing demo_state = False"
  "items demo_state = demo_items"
  "status demo_state = Some \<lparr>exists = True, linkUUID = ''l1''\<rparr>"
  "saving demo_state = False"
  "panelOpen demo_state = True"
  "password demo_state = []"
  "expiration demo_state = ''never''"
  "downloadBtn demo_state = True"
  "trace demo_state = []"
  by (simp_all add: demo_state_def)

lemma local_mirror_flags:
  "local_mirror (s\<lparr>changing := c\<rparr>) = local_mirror s"
  "local_mirror (s\<lparr>saving := c\<rparr>) = local_mirror s"
  "local_mirror (s\<lparr>trace := t\<rparr>) = local_mirror s"
  by (simp_all add: local_mirror_def)

subsection \<open>The unit index\<close>

text \<open>
  \<open>floorLog1024 x\<close> is the integer \<open>i\<close> with \<open>1024 ^ i \<le> x < 1024 ^ (i + 1)\<close>, that is
  \<open>\<lfloor>log 1024 x\<rfloor>\<close>.
\<close>

lemma power_int_1024_step: "power_int (1024::rat) (i + 1) = power_int 1024 i * 1024"
  by (simp add: power_int_add_1)

lemma floorLog1024_bounds:
  "0 < x \<Longrightarrow> power_int 1024 (floorLog1024 x) \<le> x \<and> x < power_int 1024 (floorLog1024 x + 1)"
proof (induction x rule: floorLog1024.induct)
  case (1 x)
  show ?case
  proof (cases "1024 \<le> x")
    case True
    then have fl: "floorLog1024 x = floorLog1024 (x / 1024) + 1"
      using "1.prems" by (subst floorLog1024.simps) simp
    have "power_int 1024 (floorLog1024 (x / 1024)) \<le> x / 1024
        \<and> x / 1024 < power_int 1024 (floorLog1024 (x / 1024) + 1)"
      using "1.IH"(1) True "1.prems" by simp
    then show ?thesis
      unfolding fl power_int_1024_step by (simp add: field_simps)
  next
    case False
    show ?thesis
    proof (cases "x < 1")
      case True
      then have fl: "floorLog1024 x = floorLog1024 (x * 1024) - 1"
        using "1.prems" False by (subst floorLog1024.simps) simp
      have ih: "power_int 1024 (floorLog1024 (x * 1024)) \<le> x * 1024
          \<and> x * 1024 < power_int 1024 (floorLog1024 (x * 1024) + 1)"
        using "1.IH"(2) True False "1.prems" by simp
      have step: "power_int (1024::rat) (floorLog1024 (x * 1024))
          = power_int 1024 (floorLog1024 (x * 1024) - 1) * 1024"
        using power_int_1024_step [of "floorLog1024 (x * 1024) - 1"] by simp
      show ?thesis
        using ih unfolding fl power_int_1024_step
        by (simp add: step)
    next
      case False
      with \<open>\<not> 1024 \<le> x\<close> have "floorLog1024 x = 0"
        using "1.prems" by (subst floorLog1024.simps) simp
      then show ?thesis using False \<open>\<not> 1024 \<le> x\<close> by simp
    qed
  qed
qed

lemma power_int_1024_less_imp:
  assumes "power_int (1024::rat) m < power_int 1024 n"
  shows "m < n"
proof (rule ccontr)
  assume "\<not> m < n"
  then have "n \<le> m" by simp
  then have "power_int (1024::rat) n \<le> power_int 1024 m"
    by (rule power_int_increasing) simp
  with assms show False by simp
qed

lemma floorLog1024_unique:
  assumes "0 < x" and "power_int 1024 i \<le> x" and "x < power_int 1024 (i + 1)"
  shows "floorLog1024 x = i"
proof -
  let ?j = "floorLog1024 x"
  have b: "power_int 1024 ?j \<le> x" "x < power_int 1024 (?j + 1)"
    using floorLog1024_bounds [OF assms(1)] by simp_all
  have "power_int (1024::rat) i < power_int 1024 (?j + 1)"
    using assms(2) b(2) by linarith
  then have "i < ?j + 1"
    by (rule power_int_1024_less_imp)
  moreover have "power_int (1024::rat) ?j < power_int 1024 (i + 1)"
    using assms(3) b(1) by linarith
  then have "?j < i + 1"
    by (rule power_int_1024_less_imp)
  ultimately show ?thesis by simp
qed



subsection \<open>Evaluating \<open>formatBytes\<close>\<close>

lemma formatBytes_unfold:
  "formatBytes bytes decimals_arg =
     (let decimals = decimals_or_default decimals_arg in
      if bytes = 0 then Inr ''0 Bytes''
      else
        let dm = (if decimals < 0 then 0 else decimals);
            i = floorLog1024 bytes
        in if 100 < dm then Inl RangeError
           else if bytes < 0 then Inr (''NaN'' @ '' '' @ ''undefined'')
           else Inr (show_scaled (toFixed (bytes / power_int 1024 i) (nat dm)) (nat dm)
                     @ '' '' @ js_string (sizes_at i)))"
  by (simp add: formatBytes_def formatBytesOn_def)



lemma formatBytes_zero: "formatBytes 0 d = Inr ''0 Bytes''"
  by (simp add: formatBytes_unfold)














subsection \<open>Double rounding\<close>





lemma roundHalfEven_of_int: "roundHalfEven (of_int m) = m"
  by (simp add: roundHalfEven_def)










section \<open>Properties of the handlers\<close>

subsection \<open>C1: pause/resume toggle\<close>

text \<open>
  C1. When the sync's record is loaded (\<open>syncConfigOf\<close> finds it) and both remote calls
  resolve, \<^verbatim>\<open>togglePause\<close> leaves the record's paused flag at the negation of its
  previous value; that negated value is the one sent with \<^verbatim>\<open>syncUpdatePaused\<close>
  (the trace lists the calls made); the identifiers keep their order and every record
  with another identifier stays where it was, unchanged; and, when identifiers in the
  collection are unique, the new collection is the old one with the single position
  holding that record replaced.
\<close>

theorem togglePause_negates_paused:
  assumes loaded: "syncConfigOf sync_uuid (desktopConfig s) = Some cfg"
    and ok1: "api (SyncUpdatePaused sync_uuid (\<not> paused cfg)) = None"
    and ok2: "api (SyncResetCache sync_uuid) = None"
  shows "syncConfigOf sync_uuid (desktopConfig (togglePause api sync_uuid s))
           = Some (cfg\<lparr>paused := \<not> paused cfg\<rparr>)
       \<and> trace (togglePause api sync_uuid s)
           = trace s @ [LoadingToast, RemoteCall (SyncUpdatePaused sync_uuid (\<not> paused cfg)),
                        RemoteCall (SyncResetCache sync_uuid), ToastDismiss]
       \<and> map uuid (syncPairs (syncConfig (desktopConfig (togglePause api sync_uuid s))))
           = map uuid (syncPairs (syncConfig (desktopConfig s)))
       \<and> (\<forall>i<length (syncPairs (syncConfig (desktopConfig s))).
             uuid (syncPairs (syncConfig (desktopConfig s)) ! i) \<noteq> sync_uuid \<longrightarrow>
             syncPairs (syncConfig (desktopConfig (togglePause api sync_uuid s))) ! i
               = syncPairs (syncConfig (desktopConfig s)) ! i)
       \<and> (distinct (map uuid (syncPairs (syncConfig (desktopConfig s)))) \<longrightarrow>
            (\<exists>i<length (syncPairs (syncConfig (desktopConfig s))).
               syncPairs (syncConfig (desktopConfig s)) ! i = cfg
             \<and> syncPairs (syncConfig (desktopConfig (togglePause api sync_uuid s)))
                 = (syncPairs (syncConfig (desktopConfig s)))
                     [i := cfg\<lparr>paused := \<not> paused cfg\<rparr>]))"
proof -
  let ?pairs = "syncPairs (syncConfig (desktopConfig s))"
  let ?s' = "togglePause api sync_uuid s"
  let ?g = "\<lambda>pair::'a SyncPair_scheme. pair\<lparr>paused := \<not> paused cfg\<rparr>"
  have run: "?s' = s\<lparr>desktopConfig := pauseUpdater sync_uuid (\<not> paused cfg) (desktopConfig s),
        changing := False,
        trace := trace s @ [LoadingToast, RemoteCall (SyncUpdatePaused sync_uuid (\<not> paused cfg)),
           RemoteCall (SyncResetCache sync_uuid), ToastDismiss]\<rparr>"
    by (rule togglePause_resolved [OF loaded ok1 ok2])
  have pairs': "syncPairs (syncConfig (desktopConfig ?s'))
      = map (\<lambda>pair. if uuid pair = sync_uuid then ?g pair else pair) ?pairs"
    by (simp add: run pauseUpdater_def)
  obtain rest where flt: "filter (\<lambda>pair. uuid pair = sync_uuid) ?pairs = cfg # rest"
    using loaded by (auto simp: syncConfigOf_def split: list.splits)
  have c1: "syncConfigOf sync_uuid (desktopConfig ?s') = Some (?g cfg)"
    unfolding syncConfigOf_def pairs'
    using filter_map_if_head [OF flt, of ?g] by simp
  have c2: "trace ?s' = trace s @ [LoadingToast, RemoteCall (SyncUpdatePaused sync_uuid (\<not> paused cfg)),
                        RemoteCall (SyncResetCache sync_uuid), ToastDismiss]"
    by (simp add: run)
  have c3: "map uuid (syncPairs (syncConfig (desktopConfig ?s'))) = map uuid ?pairs"
    unfolding pairs' by (induction ?pairs) simp_all
  have c4: "syncPairs (syncConfig (desktopConfig ?s')) ! i = ?pairs ! i"
    if "i < length ?pairs" and "uuid (?pairs ! i) \<noteq> sync_uuid" for i
    unfolding pairs' using that by simp
  obtain i where i: "i < length ?pairs" "?pairs ! i = cfg" "uuid cfg = sync_uuid"
    using filter_head_nth [OF flt] by blast
  have "syncPairs (syncConfig (desktopConfig ?s')) = ?pairs[i := ?g (?pairs ! i)]"
    if inv: "distinct (map uuid ?pairs)"
    unfolding pairs' using map_if_key_update [OF inv i(1), of sync_uuid ?g] i(2,3) by simp
  then have c5: "\<exists>i<length ?pairs. ?pairs ! i = cfg
      \<and> syncPairs (syncConfig (desktopConfig ?s')) = ?pairs[i := ?g cfg]"
    if "distinct (map uuid ?pairs)"
    using i that by auto
  show ?thesis using c1 c2 c3 c4 c5 by blast
qed

theorem togglePause_negates_paused_witness:
  "syncConfigOf ''a'' (desktopConfig demo_state) = Some \<lparr>uuid = ''a'', paused = False\<rparr>
   \<and> api_ok (SyncUpdatePaused ''a'' True) = None \<and> api_ok (SyncResetCache ''a'') = None
   \<and> syncConfigOf ''a'' (desktopConfig (togglePause api_ok ''a'' demo_state))
       = Some \<lparr>uuid = ''a'', paused = True\<rparr>
   \<and> trace (togglePause api_ok ''a'' demo_state)
       = [LoadingToast, RemoteCall (SyncUpdatePaused ''a'' True),
          RemoteCall (SyncResetCache ''a''), ToastDismiss]
   \<and> map uuid (syncPairs (syncConfig (desktopConfig (togglePause api_ok ''a'' demo_state))))
       = [''a'', ''b'']
   \<and> syncPairs (syncConfig (desktopConfig (togglePause api_ok ''a'' demo_state))) ! 1
       = \<lparr>uuid = ''b'', paused = True\<rparr>"
proof -
  have h1: "syncConfigOf ''a'' (desktopConfig demo_state) = Some \<lparr>uuid = ''a'', paused = False\<rparr>"
    by (simp add: syncConfigOf_def demo_simps demo_pairs_def)
  have h3: "api_ok (SyncUpdatePaused ''a'' (\<not> paused \<lparr>uuid = ''a'', paused = False\<rparr>)) = None"
    by (simp add: api_ok_def)
  have h4: "api_ok (SyncResetCache ''a'') = None"
    by (simp add: api_ok_def)
  note inst = togglePause_negates_paused [OF h1 h3 h4]
  have other: "syncPairs (syncConfig (desktopConfig (togglePause api_ok ''a'' demo_state))) ! 1
      = \<lparr>uuid = ''b'', paused = True\<rparr>"
    using inst [THEN conjunct2, THEN conjunct2, THEN conjunct2, THEN conjunct1, THEN spec, of 1]
    by (simp add: demo_simps demo_pairs_def)
  from inst h1 h3 h4 other
  show ?thesis by (simp add: demo_simps demo_pairs_def)
qed

subsection \<open>C4: deleting a sync\<close>

text \<open>
  C4. After a confirmed \<^verbatim>\<open>deleteSync\<close> whose remote call resolves, the local collection
  is the old one without the records whose identifier is the deleted sync's (every other
  record stays, in order), and the selected-sync reference is cleared. When identifiers
  are unique and the sync's record is at position \<open>i\<close>, exactly that one record is
  gone: the result is the old list without position \<open>i\<close>.
\<close>

theorem deleteSync_removes_matching:
  assumes ok: "api (SyncUpdateRemoved sync_uuid True) = None"
  shows "syncPairs (syncConfig (desktopConfig (deleteSync api True sync_uuid s)))
           = filter (\<lambda>pair. uuid pair \<noteq> sync_uuid) (syncPairs (syncConfig (desktopConfig s)))
       \<and> selectedSync (deleteSync api True sync_uuid s) = None
       \<and> (distinct (map uuid (syncPairs (syncConfig (desktopConfig s)))) \<longrightarrow>
            (\<forall>i<length (syncPairs (syncConfig (desktopConfig s))).
               uuid (syncPairs (syncConfig (desktopConfig s)) ! i) = sync_uuid \<longrightarrow>
               syncPairs (syncConfig (desktopConfig (deleteSync api True sync_uuid s)))
                 = take i (syncPairs (syncConfig (desktopConfig s)))
                   @ drop (Suc i) (syncPairs (syncConfig (desktopConfig s)))))"
proof -
  let ?pairs = "syncPairs (syncConfig (desktopConfig s))"
  let ?s' = "deleteSync api True sync_uuid s"
  have pairs': "syncPairs (syncConfig (desktopConfig ?s'))
      = filter (\<lambda>pair. uuid pair \<noteq> sync_uuid) ?pairs"
    using ok by (simp add: deleteSync_resolved deleteUpdater_def)
  have sel: "selectedSync ?s' = None"
    using ok by (simp add: deleteSync_resolved)
  have one: "syncPairs (syncConfig (desktopConfig ?s')) = take i ?pairs @ drop (Suc i) ?pairs"
    if "distinct (map uuid ?pairs)" and "i < length ?pairs" and "uuid (?pairs ! i) = sync_uuid" for i
    using filter_neq_key_distinct [OF that(1,2)] that(3) pairs' by simp
  show ?thesis using pairs' sel one by blast
qed

theorem deleteSync_removes_matching_witness:
  "api_ok (SyncUpdateRemoved ''a'' True) = None
   \<and> distinct (map uuid (syncPairs (syncConfig (desktopConfig demo_state))))
   \<and> uuid (syncPairs (syncConfig (desktopConfig demo_state)) ! 0) = ''a''
   \<and> syncPairs (syncConfig (desktopConfig (deleteSync api_ok True ''a'' demo_state)))
       = [\<lparr>uuid = ''b'', paused = True\<rparr>]
   \<and> selectedSync (deleteSync api_ok True ''a'' demo_state) = None"
proof -
  have ok: "api_ok (SyncUpdateRemoved ''a'' True) = None"
    by (simp add: api_ok_def)
  from deleteSync_removes_matching [of api_ok "''a''" demo_state] ok
  show ?thesis by (simp add: demo_simps demo_pairs_def)
qed

subsection \<open>C5: creating a directory\<close>

text \<open>
  C5. After a \<^verbatim>\<open>createDirectory\<close> whose remote call resolves with \<open>item\<close>, the items
  are the old ones without those that share the new item's identifier or its
  lower-cased name, followed by the new item; so the only record with that
  case-insensitive name, and the only one with that identifier, is the new one.
\<close>

theorem createDirectory_single_survivor:
  assumes ok: "mkdir v parent = Inr item"
  shows "items (createDirectory mkdir toLowerCase (Some v) parent s)
           = filter (\<lambda>prevItem. uuid prevItem \<noteq> uuid item
                        \<and> toLowerCase (name prevItem) \<noteq> toLowerCase (name item)) (items s)
             @ [item]
       \<and> filter (\<lambda>i. toLowerCase (name i) = toLowerCase (name item))
            (items (createDirectory mkdir toLowerCase (Some v) parent s)) = [item]
       \<and> filter (\<lambda>i. uuid i = uuid item)
            (items (createDirectory mkdir toLowerCase (Some v) parent s)) = [item]"
proof -
  let ?keep = "\<lambda>prevItem. uuid prevItem \<noteq> uuid item
                        \<and> toLowerCase (name prevItem) \<noteq> toLowerCase (name item)"
  have new: "items (createDirectory mkdir toLowerCase (Some v) parent s)
      = filter ?keep (items s) @ [item]"
    using ok by (simp add: createDirectory_resolved createUpdater_def)
  have n: "filter (\<lambda>i. toLowerCase (name i) = toLowerCase (name item)) (filter ?keep (items s)) = []"
    by (simp add: filter_empty_conv)
  have u: "filter (\<lambda>i. uuid i = uuid item) (filter ?keep (items s)) = []"
    by (auto simp: filter_empty_conv)
  show ?thesis unfolding new using n u by simp
qed

theorem createDirectory_single_survivor_witness:
  "mkdir_ok ''DOCS'' ''root'' = Inr \<lparr>uuid = ''d3'', name = ''DOCS'', selected = False\<rparr>
   \<and> items (createDirectory mkdir_ok toLowerCase_ascii (Some ''DOCS'') ''root'' demo_state)
       = [\<lparr>uuid = ''d2'', name = ''Music'', selected = True\<rparr>,
          \<lparr>uuid = ''d3'', name = ''DOCS'', selected = False\<rparr>]"
proof -
  have ok: "mkdir_ok ''DOCS'' ''root'' = Inr \<lparr>uuid = ''d3'', name = ''DOCS'', selected = False\<rparr>"
    by (simp add: mkdir_ok_def)
  have l1: "toLowerCase_ascii ''Docs'' = ''docs''" by code_simp
  have l2: "toLowerCase_ascii ''DOCS'' = ''docs''" by code_simp
  have l3: "toLowerCase_ascii ''Music'' = ''music''" by code_simp
  from createDirectory_single_survivor [of mkdir_ok "''DOCS''" "''root''" _ toLowerCase_ascii demo_state] ok
  show ?thesis by (simp add: demo_simps demo_items_def l1 l2 l3)
qed

subsection \<open>C8: disabling a link in a links listing\<close>

text \<open>
  C8. With the link status loaded and the link existing, no save in flight, the
  \<^verbatim>\<open>disablePublicLink\<close> call resolving (the refetch resolves in any case), and the
  route containing \<^verbatim>\<open>links\<close>: the listing loses the records with the item's identifier and keeps the
  others in order (exactly the one record at the item's position when identifiers are
  unique), the panel is closed, and the calls made are the disable call with the
  link's identifier and the refetch.
\<close>

theorem disable_link_in_links_view:
  assumes st: "status s = Some st" and ex: "exists st" and idle: "\<not> saving s"
    and ok: "api (DisablePublicLink (uuid item) (linkUUID st)) = None"
    and links: "str_includes location ''links''"
  shows "items (toggleStatus api location item False s)
           = filter (\<lambda>prevItem. uuid prevItem \<noteq> uuid item) (items s)
       \<and> \<not> panelOpen (toggleStatus api location item False s)
       \<and> remoteCalls (trace (toggleStatus api location item False s))
           = remoteCalls (trace s)
             @ [DisablePublicLink (uuid item) (linkUUID st), Refetch (uuid item)]
       \<and> (distinct (map uuid (items s)) \<longrightarrow>
            (\<forall>i<length (items s). uuid (items s ! i) = uuid item \<longrightarrow>
               items (toggleStatus api location item False s)
                 = take i (items s) @ drop (Suc i) (items s)))"
proof -
  let ?s' = "toggleStatus api location item False s"
  have run: "?s' = s\<lparr>items := removeItemUpdater item (items s), panelOpen := False,
      saving := True,
      trace := trace s @ [LoadingToast,
        RemoteCall (DisablePublicLink (uuid item) (linkUUID st)),
        RemoteCall (Refetch (uuid item)), ToastDismiss, SetTimeout 100]\<rparr>"
    using toggleStatus_resolved [of s st False api item location] st ex idle ok links
    by simp
  have a: "items ?s' = filter (\<lambda>prevItem. uuid prevItem \<noteq> uuid item) (items s)"
    by (simp add: run removeItemUpdater_def)
  have b: "\<not> panelOpen ?s'"
    by (simp add: run)
  have c: "remoteCalls (trace ?s') = remoteCalls (trace s)
      @ [DisablePublicLink (uuid item) (linkUUID st), Refetch (uuid item)]"
    by (simp add: run remoteCalls_append)
  have d: "items ?s' = take i (items s) @ drop (Suc i) (items s)"
    if "distinct (map uuid (items s))" and "i < length (items s)"
      and "uuid (items s ! i) = uuid item" for i
    using filter_neq_key_distinct [OF that(1,2)] that(3) a by simp
  show ?thesis using a b c d by blast
qed

theorem disable_link_in_links_view_witness:
  "status demo_state = Some \<lparr>exists = True, linkUUID = ''l1''\<rparr>
   \<and> \<not> saving demo_state
   \<and> str_includes ''/drive/links'' ''links''
   \<and> distinct (map uuid (items demo_state))
   \<and> items (toggleStatus api_ok ''/drive/links'' demo_item False demo_state)
       = [\<lparr>uuid = ''d2'', name = ''Music'', selected = True\<rparr>]
   \<and> \<not> panelOpen (toggleStatus api_ok ''/drive/links'' demo_item False demo_state)
   \<and> remoteCalls (trace (toggleStatus api_ok ''/drive/links'' demo_item False demo_state))
       = [DisablePublicLink ''d1'' ''l1'', Refetch ''d1'']"
proof -
  have links: "str_includes ''/drive/links'' ''links''"
    unfolding str_includes_def by code_simp
  have ok: "api_ok (DisablePublicLink (uuid demo_item)
      (linkUUID \<lparr>exists = True, linkUUID = ''l1''\<rparr>)) = None"
    by (simp add: api_ok_def)
  from disable_link_in_links_view [of demo_state "\<lparr>exists = True, linkUUID = ''l1''\<rparr>"
      api_ok demo_item "''/drive/links''"] ok links
  show ?thesis by (simp add: demo_simps demo_items_def demo_item_def)
qed

subsection \<open>C10: removal after any toggle in a links listing\<close>

text \<open>
  C10. The removal does not depend on the direction of the toggle: whenever
  \<^verbatim>\<open>toggleStatus\<close> reaches its remote call (enabling, or disabling an existing link) and
  that call resolves while the route contains \<^verbatim>\<open>links\<close>, the item is removed from the
  listing and the panel is closed.
\<close>

theorem toggle_in_links_view_removes_item:
  assumes st: "status s = Some st" and idle: "\<not> saving s" and run: "checked \<or> exists st"
    and ok: "api (if checked then EnablePublicLink (uuid item)
                  else DisablePublicLink (uuid item) (linkUUID st)) = None"
    and links: "str_includes location ''links''"
  shows "items (toggleStatus api location item checked s)
           = filter (\<lambda>prevItem. uuid prevItem \<noteq> uuid item) (items s)
       \<and> uuid item \<notin> uuid ` set (items (toggleStatus api location item checked s))
       \<and> \<not> panelOpen (toggleStatus api location item checked s)"
proof -
  let ?s' = "toggleStatus api location item checked s"
  have a: "items ?s' = filter (\<lambda>prevItem. uuid prevItem \<noteq> uuid item) (items s)"
    using toggleStatus_resolved [of s st checked api item location] st idle run ok links
    by (simp add: removeItemUpdater_def)
  have b: "\<not> panelOpen ?s'"
    using toggleStatus_resolved [of s st checked api item location] st idle run ok links
    by simp
  have c: "uuid item \<notin> uuid ` set (items ?s')"
    unfolding a by auto
  show ?thesis using a b c by blast
qed

theorem toggle_in_links_view_removes_item_witness:
  "status (demo_state\<lparr>status := Some \<lparr>exists = False, linkUUID = []\<rparr>\<rparr>)
      = Some \<lparr>exists = False, linkUUID = []\<rparr>
   \<and> \<not> saving (demo_state\<lparr>status := Some \<lparr>exists = False, linkUUID = []\<rparr>\<rparr>)
   \<and> str_includes ''/drive/links'' ''links''
   \<and> items (toggleStatus api_ok ''/drive/links'' demo_item True
         (demo_state\<lparr>status := Some \<lparr>exists = False, linkUUID = []\<rparr>\<rparr>))
       = [\<lparr>uuid = ''d2'', name = ''Music'', selected = True\<rparr>]
   \<and> \<not> panelOpen (toggleStatus api_ok ''/drive/links'' demo_item True
         (demo_state\<lparr>status := Some \<lparr>exists = False, linkUUID = []\<rparr>\<rparr>))"
proof -
  let ?s = "demo_state\<lparr>status := Some \<lparr>exists = False, linkUUID = []\<rparr>\<rparr>"
  have links: "str_includes ''/drive/links'' ''links''"
    unfolding str_includes_def by code_simp
  have ok: "api_ok (if True then EnablePublicLink (uuid demo_item)
      else DisablePublicLink (uuid demo_item) (linkUUID \<lparr>exists = False, linkUUID = []\<rparr>)) = None"
    by (simp add: api_ok_def)
  from toggle_in_links_view_removes_item [of ?s "\<lparr>exists = False, linkUUID = []\<rparr>" True
      api_ok demo_item "''/drive/links''"] ok links
  show ?thesis by (simp add: demo_simps demo_items_def demo_item_def)
qed

subsection \<open>C2: a rejected remote call\<close>

text \<open>
  C2, as the code has it. For each handler (\<^verbatim>\<open>togglePause\<close>, \<^verbatim>\<open>deleteSync\<close>,
  \<^verbatim>\<open>createDirectory\<close>, \<^verbatim>\<open>toggleStatus\<close> in both directions, \<^verbatim>\<open>save\<close>): when a call
  the handler awaits directly (\<^verbatim>\<open>syncUpdatePaused\<close>, \<^verbatim>\<open>syncResetCache\<close>,
  \<^verbatim>\<open>syncUpdateRemoved\<close>, \<^verbatim>\<open>createDirectory\<close>, \<^verbatim>\<open>enablePublicLink\<close>,
  \<^verbatim>\<open>disablePublicLink\<close>, \<^verbatim>\<open>editPublicLink\<close>) rejects with \<open>e\<close>, the local mirror after
  the handler equals the local mirror before it, and the handler shows exactly one more
  error toast, whose text is \<open>errorMessage e\<close>: the error's message, or its string
  form when it has no message. The in-flight flags (\<open>changing\<close>, \<open>saving\<close>) and the
  trace are not part of the mirror.
\<close>

theorem rejected_call_leaves_mirror:
  "(syncConfigOf sync_uuid (desktopConfig s) = Some cfg
      \<and> (api (SyncUpdatePaused sync_uuid (\<not> paused cfg)) = Some e
         \<or> api (SyncUpdatePaused sync_uuid (\<not> paused cfg)) = None
           \<and> api (SyncResetCache sync_uuid) = Some e)
    \<longrightarrow> local_mirror (togglePause api sync_uuid s) = local_mirror s
      \<and> errorToasts (trace (togglePause api sync_uuid s))
          = errorToasts (trace s) @ [errorMessage e])
   \<and> (api (SyncUpdateRemoved sync_uuid True) = Some e
    \<longrightarrow> local_mirror (deleteSync api True sync_uuid s) = local_mirror s
      \<and> errorToasts (trace (deleteSync api True sync_uuid s))
          = errorToasts (trace s) @ [errorMessage e])
   \<and> (mkdir v parent = Inl e
    \<longrightarrow> local_mirror (createDirectory mkdir toLowerCase (Some v) parent s) = local_mirror s
      \<and> errorToasts (trace (createDirectory mkdir toLowerCase (Some v) parent s))
          = errorToasts (trace s) @ [errorMessage e])
   \<and> (status s = Some st \<and> \<not> saving s \<and> (checked \<or> exists st)
      \<and> api (if checked then EnablePublicLink (uuid item)
              else DisablePublicLink (uuid item) (linkUUID st)) = Some e
    \<longrightarrow> local_mirror (toggleStatus api location item checked s) = local_mirror s
      \<and> errorToasts (trace (toggleStatus api location item checked s))
          = errorToasts (trace s) @ [errorMessage e])
   \<and> (status s = Some st \<and> exists st \<and> \<not> saving s
      \<and> api (EditPublicLink (uuid item) (linkUUID st) (downloadBtn s) (expiration s)
              (if password s \<noteq> [] then Some (password s) else None)) = Some e
    \<longrightarrow> local_mirror (save api item s) = local_mirror s
      \<and> errorToasts (trace (save api item s)) = errorToasts (trace s) @ [errorMessage e])"
proof (intro conjI impI)
  assume h: "syncConfigOf sync_uuid (desktopConfig s) = Some cfg
      \<and> (api (SyncUpdatePaused sync_uuid (\<not> paused cfg)) = Some e
         \<or> api (SyncUpdatePaused sync_uuid (\<not> paused cfg)) = None
           \<and> api (SyncResetCache sync_uuid) = Some e)"
  then consider
      (first) "api (SyncUpdatePaused sync_uuid (\<not> paused cfg)) = Some e"
    | (second) "api (SyncUpdatePaused sync_uuid (\<not> paused cfg)) = None"
        "api (SyncResetCache sync_uuid) = Some e"
    by auto
  then have "local_mirror (togglePause api sync_uuid s) = local_mirror s
      \<and> errorToasts (trace (togglePause api sync_uuid s))
          = errorToasts (trace s) @ [errorMessage e]"
  proof cases
    case first
    with h show ?thesis
      by (simp add: togglePause_rejected_first local_mirror_flags errorToasts_append)
  next
    case second
    with h show ?thesis
      by (simp add: togglePause_rejected_second local_mirror_flags errorToasts_append)
  qed
  then show "local_mirror (togglePause api sync_uuid s) = local_mirror s"
    and "errorToasts (trace (togglePause api sync_uuid s))
          = errorToasts (trace s) @ [errorMessage e]"
    by simp_all
next
  assume h: "api (SyncUpdateRemoved sync_uuid True) = Some e"
  then show "local_mirror (deleteSync api True sync_uuid s) = local_mirror s"
    by (simp add: deleteSync_rejected local_mirror_flags)
  from h show "errorToasts (trace (deleteSync api True sync_uuid s))
          = errorToasts (trace s) @ [errorMessage e]"
    by (simp add: deleteSync_rejected errorToasts_append)
next
  assume h: "mkdir v parent = Inl e"
  then show "local_mirror (createDirectory mkdir toLowerCase (Some v) parent s) = local_mirror s"
    by (simp add: createDirectory_rejected local_mirror_flags)
  from h show "errorToasts (trace (createDirectory mkdir toLowerCase (Some v) parent s))
          = errorToasts (trace s) @ [errorMessage e]"
    by (simp add: createDirectory_rejected errorToasts_append)
next
  let ?call = "if checked then EnablePublicLink (uuid item)
               else DisablePublicLink (uuid item) (linkUUID st)"
  assume h: "status s = Some st \<and> \<not> saving s \<and> (checked \<or> exists st) \<and> api ?call = Some e"
  then have pre: "status s = Some st" "\<not> saving s" "checked \<or> exists st" by simp_all
  from h have rejected: "api ?call = Some e" by simp
  have "local_mirror (toggleStatus api location item checked s) = local_mirror s
      \<and> errorToasts (trace (toggleStatus api location item checked s))
          = errorToasts (trace s) @ [errorMessage e]"
    unfolding toggleStatus_rejected [where api=api and checked=checked and st=st and e=e
        and item=item and s=s, OF pre rejected]
    by (simp add: local_mirror_flags errorToasts_append)
  then show "local_mirror (toggleStatus api location item checked s) = local_mirror s"
    and "errorToasts (trace (toggleStatus api location item checked s))
          = errorToasts (trace s) @ [errorMessage e]"
    by simp_all
next
  let ?call = "EditPublicLink (uuid item) (linkUUID st) (downloadBtn s) (expiration s)
                (if password s \<noteq> [] then Some (password s) else None)"
  assume h: "status s = Some st \<and> exists st \<and> \<not> saving s \<and> api ?call = Some e"
  then have pre: "status s = Some st" "exists st" "\<not> saving s" by simp_all
  from h have rejected: "api ?call = Some e" by simp
  have "local_mirror (save api item s) = local_mirror s
      \<and> errorToasts (trace (save api item s)) = errorToasts (trace s) @ [errorMessage e]"
    unfolding save_rejected [where api=api and st=st and e=e and item=item and s=s,
        OF pre rejected]
    by (simp add: local_mirror_flags errorToasts_append)
  then show "local_mirror (save api item s) = local_mirror s"
    and "errorToasts (trace (save api item s)) = errorToasts (trace s) @ [errorMessage e]"
    by simp_all
qed

theorem rejected_call_leaves_mirror_witness:
  "syncConfigOf ''a'' (desktopConfig demo_state) = Some \<lparr>uuid = ''a'', paused = False\<rparr>
   \<and> api_fail (SyncUpdatePaused ''a'' True) = Some demo_error
   \<and> api_fail (SyncUpdateRemoved ''a'' True) = Some demo_error
   \<and> mkdir_fail ''New'' ''root'' = Inl demo_error
   \<and> status demo_state = Some \<lparr>exists = True, linkUUID = ''l1''\<rparr> \<and> \<not> saving demo_state
   \<and> api_fail (DisablePublicLink ''d1'' ''l1'') = Some demo_error
   \<and> api_fail (EditPublicLink ''d1'' ''l1'' True ''never'' None) = Some demo_error
   \<and> errorMessage demo_error = ''offline''
   \<and> local_mirror (togglePause api_fail ''a'' demo_state) = local_mirror demo_state
   \<and> errorToasts (trace (togglePause api_fail ''a'' demo_state)) = [''offline'']
   \<and> local_mirror (deleteSync api_fail True ''a'' demo_state) = local_mirror demo_state
   \<and> errorToasts (trace (deleteSync api_fail True ''a'' demo_state)) = [''offline'']
   \<and> local_mirror (createDirectory mkdir_fail toLowerCase_ascii (Some ''New'') ''root'' demo_state)
       = local_mirror demo_state
   \<and> errorToasts (trace (createDirectory mkdir_fail toLowerCase_ascii (Some ''New'') ''root''
         demo_state)) = [''offline'']
   \<and> local_mirror (toggleStatus api_fail ''/drive/links'' demo_item False demo_state)
       = local_mirror demo_state
   \<and> errorToasts (trace (toggleStatus api_fail ''/drive/links'' demo_item False demo_state))
       = [''offline'']
   \<and> local_mirror (save api_fail demo_item demo_state) = local_mirror demo_state
   \<and> errorToasts (trace (save api_fail demo_item demo_state)) = [''offline'']
   \<and> api_fail_on (SyncResetCache ''a'') (SyncUpdatePaused ''a'' True) = None
   \<and> api_fail_on (SyncResetCache ''a'') (SyncResetCache ''a'') = Some plain_error
   \<and> errorMessage plain_error = ''boom''
   \<and> local_mirror (togglePause (api_fail_on (SyncResetCache ''a'')) ''a'' demo_state)
       = local_mirror demo_state
   \<and> errorToasts (trace (togglePause (api_fail_on (SyncResetCache ''a'')) ''a'' demo_state))
       = [''boom'']"
proof -
  have cfg: "syncConfigOf ''a'' (desktopConfig demo_state) = Some \<lparr>uuid = ''a'', paused = False\<rparr>"
    by (simp add: syncConfigOf_def demo_simps demo_pairs_def)
  have msg: "errorMessage demo_error = ''offline''"
    by (simp add: errorMessage_def demo_error_def)
  have msg': "errorMessage plain_error = ''boom''"
    by (simp add: errorMessage_def plain_error_def)
  from rejected_call_leaves_mirror [where sync_uuid = "''a''" and s = demo_state
      and cfg = "\<lparr>uuid = ''a'', paused = False\<rparr>" and api = api_fail and e = demo_error
      and mkdir = mkdir_fail and v = "''New''" and parent = "''root''"
      and toLowerCase = toLowerCase_ascii
      and st = "\<lparr>exists = True, linkUUID = ''l1''\<rparr>" and checked = False
      and item = demo_item and location = "''/drive/links''"]
    rejected_call_leaves_mirror [where sync_uuid = "''a''" and s = demo_state
      and cfg = "\<lparr>uuid = ''a'', paused = False\<rparr>"
      and api = "api_fail_on (SyncResetCache ''a'')" and e = plain_error, THEN conjunct1]
    cfg msg msg'
  show ?thesis
    by (simp add: api_fail_def api_fail_on_def mkdir_fail_def demo_simps demo_item_def)
qed

text \<open>
  C2 as stated, for every remote call of an action, does not hold for the status call
  that \<^verbatim>\<open>toggleStatus\<close> and \<^verbatim>\<open>save\<close> make through \<^verbatim>\<open>query.refetch()\<close>: when that
  call rejects after a successful disable in a links listing, no error toast is shown
  and the item is still removed and the panel closed; after a successful edit no error
  toast is shown either.
\<close>

theorem refetch_failure_not_surfaced_counterexample:
  "api_fail_on (Refetch ''d1'') (DisablePublicLink ''d1'' ''l1'') = None
   \<and> api_fail_on (Refetch ''d1'') (Refetch ''d1'') = Some plain_error
   \<and> remoteCalls (trace (toggleStatus (api_fail_on (Refetch ''d1'')) ''/drive/links'' demo_item
         False demo_state)) = [DisablePublicLink ''d1'' ''l1'', Refetch ''d1'']
   \<and> errorToasts (trace (toggleStatus (api_fail_on (Refetch ''d1'')) ''/drive/links'' demo_item
         False demo_state)) = []
   \<and> items (toggleStatus (api_fail_on (Refetch ''d1'')) ''/drive/links'' demo_item False
         demo_state) = [\<lparr>uuid = ''d2'', name = ''Music'', selected = True\<rparr>]
   \<and> items demo_state = [\<lparr>uuid = ''d1'', name = ''Docs'', selected = False\<rparr>,
                          \<lparr>uuid = ''d2'', name = ''Music'', selected = True\<rparr>]
   \<and> \<not> panelOpen (toggleStatus (api_fail_on (Refetch ''d1'')) ''/drive/links'' demo_item False
         demo_state)
   \<and> panelOpen demo_state
   \<and> api_fail_on (Refetch ''d1'') (EditPublicLink ''d1'' ''l1'' True ''never'' None) = None
   \<and> errorToasts (trace (save (api_fail_on (Refetch ''d1'')) demo_item demo_state)) = []"
proof -
  let ?api = "api_fail_on (Refetch ''d1'')"
  have links: "str_includes ''/drive/links'' ''links''"
    unfolding str_includes_def by code_simp
  have st: "status demo_state = Some \<lparr>exists = True, linkUUID = ''l1''\<rparr>"
    and idle: "\<not> saving demo_state"
    by (simp_all add: demo_simps)
  have ex: "False \<or> exists \<lparr>exists = True, linkUUID = ''l1''\<rparr>" "exists \<lparr>exists = True, linkUUID = ''l1''\<rparr>"
    by simp_all
  have ok: "?api (if False then EnablePublicLink (uuid demo_item)
      else DisablePublicLink (uuid demo_item) (linkUUID \<lparr>exists = True, linkUUID = ''l1''\<rparr>)) = None"
    by (simp add: api_fail_on_def)
  have ok': "?api (EditPublicLink (uuid demo_item) (linkUUID \<lparr>exists = True, linkUUID = ''l1''\<rparr>)
      (downloadBtn demo_state) (expiration demo_state)
      (if password demo_state \<noteq> [] then Some (password demo_state) else None)) = None"
    by (simp add: api_fail_on_def)
  note toggled = toggleStatus_resolved [where api = ?api and location = "''/drive/links''",
      OF st idle ex(1) ok]
  note saved = save_resolved [where api = ?api, OF st ex(2) idle ok']
  show ?thesis
    unfolding toggled saved using links
    by (simp add: api_fail_on_def demo_simps demo_items_def demo_item_def removeItemUpdater_def)
qed

subsection \<open>C3: preconditions of the handlers\<close>

text \<open>
  C3, as the code has it. \<^verbatim>\<open>togglePause\<close> returns the state unchanged (nothing shown,
  nothing called) when the sync's record is not loaded; \<^verbatim>\<open>toggleStatus\<close> does so when
  the link status it holds is not loaded or the \<^verbatim>\<open>saving\<close> flag it holds is set;
  \<^verbatim>\<open>save\<close> does so when the status it holds is not loaded, the \<^verbatim>\<open>saving\<close> flag it holds
  is set or the link does not exist. The flag is the \<^verbatim>\<open>saving\<close> prop of the render that
  created the handler: an invocation that starts before the next render still reads the
  old value.
\<close>

theorem guarded_actions_noop:
  "(syncConfigOf sync_uuid (desktopConfig s) = None \<longrightarrow> togglePause api sync_uuid s = s)
   \<and> (status s = None \<or> saving s \<longrightarrow> toggleStatus api location item checked s = s)
   \<and> (status s = None \<or> saving s \<or> (\<exists>st. status s = Some st \<and> \<not> exists st)
        \<longrightarrow> save api item s = s)"
  using togglePause_not_loaded [of sync_uuid s api]
    toggleStatus_guard [of s api location item checked] save_guard [of s api item]
  by blast

theorem guarded_actions_noop_witness:
  "syncConfigOf ''zz'' (desktopConfig demo_state) = None
   \<and> togglePause api_ok ''zz'' demo_state = demo_state
   \<and> saving (demo_state\<lparr>saving := True\<rparr>)
   \<and> toggleStatus api_ok ''/drive/links'' demo_item False (demo_state\<lparr>saving := True\<rparr>)
       = demo_state\<lparr>saving := True\<rparr>
   \<and> save api_ok demo_item (demo_state\<lparr>saving := True\<rparr>) = demo_state\<lparr>saving := True\<rparr>
   \<and> status (demo_state\<lparr>status := None\<rparr>) = None
   \<and> toggleStatus api_ok ''/drive/links'' demo_item True (demo_state\<lparr>status := None\<rparr>)
       = demo_state\<lparr>status := None\<rparr>"
proof -
  have cfg: "syncConfigOf ''zz'' (desktopConfig demo_state) = None"
    by (simp add: syncConfigOf_def demo_simps demo_pairs_def)
  from guarded_actions_noop [of "''zz''" demo_state api_ok]
    guarded_actions_noop [of "''zz''" "demo_state\<lparr>saving := True\<rparr>" api_ok
      "''/drive/links''" demo_item False]
    guarded_actions_noop [of "''zz''" "demo_state\<lparr>status := None\<rparr>" api_ok
      "''/drive/links''" demo_item True]
    cfg
  show ?thesis by simp
qed

text \<open>
  C3 as stated, for every mutating action, does not hold for the sync menu:
  \<^verbatim>\<open>deleteSync\<close> on a sync with no loaded record still asks for confirmation and calls
  \<^verbatim>\<open>syncUpdateRemoved\<close>, and \<^verbatim>\<open>togglePause\<close> invoked while \<open>changing\<close> is set (an
  action in flight) still makes its two calls.
\<close>

theorem unguarded_sync_actions_counterexample:
  "syncConfigOf ''zz'' (desktopConfig demo_state) = None
   \<and> remoteCalls (trace (deleteSync api_ok True ''zz'' demo_state))
       = [SyncUpdateRemoved ''zz'' True]
   \<and> deleteSync api_ok True ''zz'' demo_state \<noteq> demo_state
   \<and> changing (demo_state\<lparr>changing := True\<rparr>)
   \<and> remoteCalls (trace (togglePause api_ok ''a'' (demo_state\<lparr>changing := True\<rparr>)))
       = [SyncUpdatePaused ''a'' True, SyncResetCache ''a'']
   \<and> togglePause api_ok ''a'' (demo_state\<lparr>changing := True\<rparr>)
       \<noteq> demo_state\<lparr>changing := True\<rparr>"
proof -
  have cfg: "syncConfigOf ''zz'' (desktopConfig demo_state) = None"
    by (simp add: syncConfigOf_def demo_simps demo_pairs_def)
  have del: "trace (deleteSync api_ok True ''zz'' demo_state)
      = [ConfirmDialog, LoadingToast, RemoteCall (SyncUpdateRemoved ''zz'' True),
         Navigate ''/syncs'', ToastDismiss]"
    by (simp add: deleteSync_resolved api_ok_def demo_simps)
  have loaded: "syncConfigOf ''a'' (desktopConfig (demo_state\<lparr>changing := True\<rparr>))
      = Some \<lparr>uuid = ''a'', paused = False\<rparr>"
    by (simp add: syncConfigOf_def demo_simps demo_pairs_def)
  have tog: "trace (togglePause api_ok ''a'' (demo_state\<lparr>changing := True\<rparr>))
      = [LoadingToast, RemoteCall (SyncUpdatePaused ''a'' True),
         RemoteCall (SyncResetCache ''a''), ToastDismiss]"
    using togglePause_resolved [OF loaded, of api_ok]
    by (simp add: api_ok_def demo_simps)
  have d1: "deleteSync api_ok True ''zz'' demo_state \<noteq> demo_state"
  proof
    assume "deleteSync api_ok True ''zz'' demo_state = demo_state"
    then have "trace (deleteSync api_ok True ''zz'' demo_state) = trace demo_state" by simp
    then show False by (simp add: del demo_simps)
  qed
  have d2: "togglePause api_ok ''a'' (demo_state\<lparr>changing := True\<rparr>)
      \<noteq> demo_state\<lparr>changing := True\<rparr>"
  proof
    assume "togglePause api_ok ''a'' (demo_state\<lparr>changing := True\<rparr>)
      = demo_state\<lparr>changing := True\<rparr>"
    then have "trace (togglePause api_ok ''a'' (demo_state\<lparr>changing := True\<rparr>))
      = trace (demo_state\<lparr>changing := True\<rparr>)" by simp
    then show False by (simp add: tog demo_simps)
  qed
  show ?thesis using cfg d1 d2 by (simp add: del tog)
qed

section \<open>Properties of the formatting utilities\<close>

subsection \<open>C6: byte formatting\<close>




subsection \<open>C7: timestamp normalisation\<close>




subsection \<open>C9: inputs below 1\<close>



end
